theory Spec2Isabelle
  imports Complex_Main "HOL-Library.AList"
begin

section \<open>Values of the client pipeline\<close>

text \<open>
  The pipeline is the \<^verbatim>\<open>queryFn\<close> of \<^verbatim>\<open>useAlignedMarkets\<close> (the paginating revision, the
  first one of the file). Its data are JSON objects of type \<^verbatim>\<open>any\<close>. A JSON object is
  modelled as a record whose fields are all optional: \<open>None\<close> is a field that is absent
  (\<^verbatim>\<open>undefined\<close>). The record holds every field that the pipeline reads from a trade, from a
  market or event record, or from their spread. A field that is present holds a value of the
  type that \<^verbatim>\<open>types/index.ts\<close> gives it: a number or a string.

  JavaScript numbers are modelled as rationals, with exact arithmetic: rounding, \<^verbatim>\<open>NaN\<close> and
  the infinities of IEEE doubles are outside the model.
\<close>

record jsobj =
  ticker :: "string option"
  trade_id :: "string option"
  created_time :: "string option"
  count :: "rat option"
  price :: "rat option"
  market_id :: "string option"
  title :: "string option"
  category_name :: "string option"
  last_price :: "rat option"
  volume :: "rat option"
  expiration_time :: "string option"
  yes_sub_title :: "string option"
  no_sub_title :: "string option"
  frequency :: "string option"
  status :: "string option"
  event_ticker :: "string option"
  open_time :: "string option"
  close_time :: "string option"
  yes_bid_dollars :: "string option"
  no_bid_dollars :: "string option"
  volume_24h :: "rat option"
  previous_price :: "rat option"
  yes_ask :: "rat option"
  yes_bid :: "rat option"

text \<open>The object with no field at all, \<^verbatim>\<open>{}\<close>.\<close>

definition empty_obj :: jsobj where
  "empty_obj = \<lparr> ticker = None, trade_id = None, created_time = None, count = None,
     price = None, market_id = None, title = None, category_name = None, last_price = None,
     volume = None, expiration_time = None, yes_sub_title = None, no_sub_title = None,
     frequency = None, status = None, event_ticker = None, open_time = None,
     close_time = None, yes_bid_dollars = None, no_bid_dollars = None, volume_24h = None,
     previous_price = None, yes_ask = None, yes_bid = None \<rparr>"

text \<open>
  \<^verbatim>\<open>x || 0\<close> on a number field: an absent field and the number 0 are both falsy and give 0.
\<close>

definition num_or_0 :: "rat option \<Rightarrow> rat" where
  "num_or_0 x = (case x of None \<Rightarrow> 0 | Some v \<Rightarrow> v)"

text \<open>Truthiness of a string field: absent and the empty string are falsy.\<close>

definition truthy :: "string option \<Rightarrow> bool" where
  "truthy x = (case x of None \<Rightarrow> False | Some s \<Rightarrow> s \<noteq> [])"

text \<open>\<^verbatim>\<open>a || b\<close> on string fields, and \<^verbatim>\<open>a || 'literal'\<close>.\<close>

definition str_or :: "string option \<Rightarrow> string option \<Rightarrow> string option" where
  "str_or a b = (if truthy a then a else b)"

definition str_or_lit :: "string option \<Rightarrow> string \<Rightarrow> string" where
  "str_or_lit a d = (case a of None \<Rightarrow> d | Some s \<Rightarrow> (if s \<noteq> [] then s else d))"

text \<open>A settled promise of \<^verbatim>\<open>fetcher(url)\<close>: it throws (rejects) or returns the parsed body.\<close>

datatype 'a settled = Rejected | Fulfilled 'a

text \<open>An exception that leaves \<^verbatim>\<open>queryFn\<close>.\<close>

datatype error = TypeError

section \<open>Trade paginator\<close>

text \<open>
  The body of one trade page, \<^verbatim>\<open>tradeData\<close>: both fields may be absent. The upstream is a
  function of the number of the request (the loop counter \<^verbatim>\<open>i\<close>: the loop issues one request
  per iteration) and of the cursor sent, so that it may answer the same cursor differently
  at different times.
\<close>

record tradeData =
  trades :: "jsobj list option"
  cursor :: "string option"

type_synonym trades_upstream = "nat \<Rightarrow> string option \<Rightarrow> tradeData settled"

definition MAX_PAGES_TO_FETCH :: nat where
  "MAX_PAGES_TO_FETCH = 5"

text \<open>
  The \<^verbatim>\<open>for\<close> loop of the pagination. The state is the loop counter, \<^verbatim>\<open>allTrades\<close>,
  \<^verbatim>\<open>currentCursor\<close> and, added by the model, the list of the requests issued so far (each
  request is identified by the cursor it sends, \<open>None\<close> for the first page). The \<^verbatim>\<open>catch\<close>
  block breaks out of the loop, as does a page without a truthy cursor.
\<close>

function pagination_loop ::
  "trades_upstream \<Rightarrow> nat \<Rightarrow> jsobj list \<Rightarrow> string option \<Rightarrow> string option list
     \<Rightarrow> jsobj list \<times> string option list" where
  "pagination_loop fetcher i allTrades currentCursor requests =
     (if i < MAX_PAGES_TO_FETCH then
        (let sent = (if truthy currentCursor then currentCursor else None);
             requests' = requests @ [sent]
         in case fetcher i sent of
              Rejected \<Rightarrow> (allTrades, requests')
            | Fulfilled tradeData \<Rightarrow>
                (let allTrades' = (case trades tradeData of
                                     None \<Rightarrow> allTrades
                                   | Some ts \<Rightarrow> allTrades @ ts)
                 in if truthy (cursor tradeData)
                    then pagination_loop fetcher (i + 1) allTrades' (cursor tradeData) requests'
                    else (allTrades', requests')))
      else (allTrades, requests))"
  by pat_completeness auto
termination
  by (relation "measure (\<lambda>(fetcher, i, allTrades, currentCursor, requests).
        MAX_PAGES_TO_FETCH - i)") auto

definition paginate :: "trades_upstream \<Rightarrow> jsobj list \<times> string option list" where
  "paginate fetcher = pagination_loop fetcher 0 [] None []"



section \<open>Market resolver\<close>

text \<open>
  \<^verbatim>\<open>[...new Set(xs)]\<close>: the distinct elements, in the order of their first occurrence.
\<close>

definition Set_add :: "'a list \<Rightarrow> 'a \<Rightarrow> 'a list" where
  "Set_add s x = (if x \<in> set s then s else s @ [x])"

definition new_Set :: "'a list \<Rightarrow> 'a list" where
  "new_Set xs = foldl Set_add [] xs"

text \<open>
  The parsed body of \<^verbatim>\<open>/api/kalshi/market/<ticker>\<close> is of type \<^verbatim>\<open>any\<close>: it is \<^verbatim>\<open>null\<close>, or
  a value whose properties \<^verbatim>\<open>market\<close> and \<^verbatim>\<open>event\<close> may each be a record or be absent (an
  object; both are absent on a number, a string or an array). The lookups are independent,
  and each distinct ticker is requested once, so the upstream is a function of the ticker
  (\<open>None\<close> is the ticker of a trade that has none).
\<close>

record marketInfo =
  market :: "jsobj option"
  event :: "jsobj option"

datatype json_body = Null | Object marketInfo

type_synonym market_upstream = "string option \<Rightarrow> json_body settled"

text \<open>
  The bodies that \<^verbatim>\<open>types/index.ts\<close> declares for a lookup, \<^verbatim>\<open>MarketResponse\<close> and
  \<^verbatim>\<open>EventResponse\<close>, carry a \<^verbatim>\<open>market\<close> record or an \<^verbatim>\<open>event\<close> record. An outcome is within
  these types when the lookup is rejected or its body carries one of the two records.
\<close>

definition in_contract :: "json_body settled \<Rightarrow> bool" where
  "in_contract r =
     (case r of
        Rejected \<Rightarrow> True
      | Fulfilled b \<Rightarrow>
          (case b of
             Null \<Rightarrow> False
           | Object v \<Rightarrow> \<not> (market v = None \<and> event v = None)))"

text \<open>\<^verbatim>\<open>a || b\<close> on objects: an object is truthy, an absent one is not.\<close>

definition obj_or :: "jsobj option \<Rightarrow> jsobj option \<Rightarrow> jsobj option" where
  "obj_or a b = (case a of None \<Rightarrow> b | Some x \<Rightarrow> Some x)"

text \<open>
  A JavaScript \<^verbatim>\<open>Map\<close> is an association list in insertion order: \<^verbatim>\<open>set\<close> is
  \<^const>\<open>AList.update\<close> (a new key goes to the end, an old key keeps its place),
  \<^verbatim>\<open>has\<close> asks for the key, \<^verbatim>\<open>get\<close> is \<^const>\<open>map_of\<close>, \<^verbatim>\<open>values()\<close> the second
  components. A value of the cache is \<open>None\<close> when \<^verbatim>\<open>undefined\<close> was stored.
\<close>

type_synonym cache = "(string option \<times> jsobj option) list"

definition Map_has :: "('k \<times> 'v) list \<Rightarrow> 'k \<Rightarrow> bool" where
  "Map_has m k = (k \<in> set (map fst m))"

definition marketTickers :: "jsobj list \<Rightarrow> string option list" where
  "marketTickers ts = new_Set (map ticker ts)"

text \<open>\<^verbatim>\<open>Promise.allSettled\<close>: one outcome per ticker, in the order of the tickers.\<close>

definition marketInfoResults :: "market_upstream \<Rightarrow> string option list \<Rightarrow> json_body settled list" where
  "marketInfoResults fetcher tickers = map fetcher tickers"

text \<open>
  The callback of the \<^verbatim>\<open>forEach\<close> that fills the cache. Reading \<^verbatim>\<open>result.value.market\<close> of
  a body that is \<^verbatim>\<open>null\<close> throws a TypeError.
\<close>

definition cache_step :: "cache \<Rightarrow> string option \<times> json_body settled \<Rightarrow> error + cache" where
  "cache_step c p =
     (case snd p of
        Rejected \<Rightarrow> Inr c
      | Fulfilled b \<Rightarrow>
          (case b of
             Null \<Rightarrow> Inl TypeError
           | Object v \<Rightarrow> Inr (AList.update (fst p) (obj_or (market v) (event v)) c)))"

text \<open>
  The \<^verbatim>\<open>forEach\<close> itself: an exception of the callback ends it, and nothing catches it, so
  it leaves \<^verbatim>\<open>queryFn\<close> and the entries made so far are lost.
\<close>

fun forEach_cache :: "cache \<Rightarrow> (string option \<times> json_body settled) list \<Rightarrow> error + cache" where
  "forEach_cache c [] = Inr c"
| "forEach_cache c (p # ps) =
     (case cache_step c p of
        Inl e \<Rightarrow> Inl e
      | Inr c' \<Rightarrow> forEach_cache c' ps)"

definition build_cache :: "string option list \<Rightarrow> json_body settled list \<Rightarrow> error + cache" where
  "build_cache tickers results = forEach_cache [] (zip tickers results)"

definition marketInfoCache :: "market_upstream \<Rightarrow> string option list \<Rightarrow> error + cache" where
  "marketInfoCache fetcher tickers = build_cache tickers (marketInfoResults fetcher tickers)"

section \<open>Alignment and rollup\<close>

subsection \<open>Threshold\<close>

definition marketNotionalVolume24h :: "jsobj \<Rightarrow> rat" where
  "marketNotionalVolume24h m = (num_or_0 (volume_24h m) * num_or_0 (last_price m)) / 100"

text \<open>
  The loop over \<^verbatim>\<open>marketInfoCache.values()\<close>. Reading \<^verbatim>\<open>market.volume_24h\<close> of a value that is
  \<^verbatim>\<open>undefined\<close> throws a TypeError, which nothing catches.
\<close>

fun maxNotionalVolume_loop :: "rat \<Rightarrow> jsobj option list \<Rightarrow> error + rat" where
  "maxNotionalVolume_loop maxNotionalVolume [] = Inr maxNotionalVolume"
| "maxNotionalVolume_loop maxNotionalVolume (None # ms) = Inl TypeError"
| "maxNotionalVolume_loop maxNotionalVolume (Some m # ms) =
     maxNotionalVolume_loop
       (if marketNotionalVolume24h m > maxNotionalVolume
        then marketNotionalVolume24h m else maxNotionalVolume) ms"

definition whaleThreshold :: "cache \<Rightarrow> error + rat" where
  "whaleThreshold c =
     (case maxNotionalVolume_loop 0 (map snd c) of
        Inl e \<Rightarrow> Inl e
      | Inr maxNotionalVolume \<Rightarrow> Inr (maxNotionalVolume * 0.125))"

subsection \<open>Alignment\<close>

text \<open>
  The spread \<^verbatim>\<open>{...trade, ...marketDetails}\<close>: every field that the market record has
  overrides the field of the trade; spreading \<^verbatim>\<open>undefined\<close> adds nothing. The \<^verbatim>\<open>id\<close> that the
  source adds to the aligned trade is never read again and is left out.
\<close>

definition over :: "'a option \<Rightarrow> 'a option \<Rightarrow> 'a option" where
  "over a b = (case b of None \<Rightarrow> a | Some v \<Rightarrow> Some v)"

definition spread :: "jsobj \<Rightarrow> jsobj option \<Rightarrow> jsobj" where
  "spread t marketDetails =
     (case marketDetails of
        None \<Rightarrow> t
      | Some d \<Rightarrow>
          \<lparr> ticker = over (ticker t) (ticker d),
            trade_id = over (trade_id t) (trade_id d),
            created_time = over (created_time t) (created_time d),
            count = over (count t) (count d),
            price = over (price t) (price d),
            market_id = over (market_id t) (market_id d),
            title = over (title t) (title d),
            category_name = over (category_name t) (category_name d),
            last_price = over (last_price t) (last_price d),
            volume = over (volume t) (volume d),
            expiration_time = over (expiration_time t) (expiration_time d),
            yes_sub_title = over (yes_sub_title t) (yes_sub_title d),
            no_sub_title = over (no_sub_title t) (no_sub_title d),
            frequency = over (frequency t) (frequency d),
            status = over (status t) (status d),
            event_ticker = over (event_ticker t) (event_ticker d),
            open_time = over (open_time t) (open_time d),
            close_time = over (close_time t) (close_time d),
            yes_bid_dollars = over (yes_bid_dollars t) (yes_bid_dollars d),
            no_bid_dollars = over (no_bid_dollars t) (no_bid_dollars d),
            volume_24h = over (volume_24h t) (volume_24h d),
            previous_price = over (previous_price t) (previous_price d),
            yes_ask = over (yes_ask t) (yes_ask d),
            yes_bid = over (yes_bid t) (yes_bid d) \<rparr>)"

text \<open>\<^verbatim>\<open>marketInfoCache.get(k)\<close>: \<^verbatim>\<open>undefined\<close> for a missing key and for a stored \<^verbatim>\<open>undefined\<close>.\<close>

definition Map_get :: "cache \<Rightarrow> string option \<Rightarrow> jsobj option" where
  "Map_get c k = (case map_of c k of None \<Rightarrow> None | Some v \<Rightarrow> v)"

definition align :: "cache \<Rightarrow> jsobj \<Rightarrow> jsobj" where
  "align c t = spread t (Map_get c (ticker t))"

definition alignedMarkets :: "cache \<Rightarrow> jsobj list \<Rightarrow> jsobj list" where
  "alignedMarkets c ts = map (align c) ts"

subsection \<open>Rollup\<close>

record Outcome =
  title :: string
  description :: string
  probability :: rat

text \<open>
  The \<^verbatim>\<open>Market\<close> object of the dashboard, with the fields that the pipeline writes. Its
  \<^verbatim>\<open>id\<close> is named \<open>ident\<close> here.
\<close>

record Market =
  ident :: "string option"
  question :: string
  title :: string
  category :: string
  ticker_symbol :: "string option"
  last_price :: "rat option"
  volume :: "rat option"
  last_update :: "string option"
  expiration_time :: string
  yes_sub_title :: string
  no_sub_title :: string
  cadence :: string
  status :: string
  event_ticker :: string
  open_time :: string
  close_time :: string
  outcomes :: "Outcome list"
  high_volume :: bool
  trending :: bool
  high_liquidity :: bool
  recent :: bool
  yes_bid_dollars :: "string option"
  no_bid_dollars :: "string option"
  volume_24h :: "rat option"
  previous_price :: "rat option"
  yes_ask :: "rat option"
  yes_bid :: "rat option"

type_synonym marketsMap = "(string option \<times> Market) list"

definition tradeNotionalValue :: "jsobj \<Rightarrow> rat" where
  "tradeNotionalValue a = num_or_0 (jsobj.count a) * num_or_0 (price a)"

definition isWhaleTrade :: "rat \<Rightarrow> jsobj \<Rightarrow> bool" where
  "isWhaleTrade threshold a = (tradeNotionalValue a > threshold)"

text \<open>The entry created for the first trade of a market.\<close>

definition new_market :: "bool \<Rightarrow> jsobj \<Rightarrow> Market" where
  "new_market w a =
     \<lparr> ident = str_or (market_id a) (ticker a),
       question = str_or_lit (jsobj.title a) ''Unknown Title'',
       Market.title = str_or_lit (jsobj.title a) ''Unknown Title'',
       category = str_or_lit (category_name a) ''Crypto'',
       ticker_symbol = ticker a,
       Market.last_price = jsobj.last_price a,
       Market.volume = jsobj.volume a,
       last_update = created_time a,
       Market.expiration_time = str_or_lit (jsobj.expiration_time a) [],
       Market.yes_sub_title = str_or_lit (jsobj.yes_sub_title a) ''YES'',
       Market.no_sub_title = str_or_lit (jsobj.no_sub_title a) ''NO'',
       cadence = str_or_lit (frequency a) ''N/A'',
       Market.status = str_or_lit (jsobj.status a) ''open'',
       Market.event_ticker = str_or_lit (jsobj.event_ticker a) [],
       Market.open_time = str_or_lit (jsobj.open_time a) [],
       Market.close_time = str_or_lit (jsobj.close_time a) [],
       outcomes = [],
       high_volume = w,
       trending = True,
       high_liquidity = True,
       recent = True,
       Market.yes_bid_dollars = jsobj.yes_bid_dollars a,
       Market.no_bid_dollars = jsobj.no_bid_dollars a,
       Market.volume_24h = jsobj.volume_24h a,
       Market.previous_price = jsobj.previous_price a,
       Market.yes_ask = jsobj.yes_ask a,
       Market.yes_bid = jsobj.yes_bid a \<rparr>"

text \<open>The update of the entry of a market that exists already.\<close>

definition update_market :: "bool \<Rightarrow> jsobj \<Rightarrow> Market \<Rightarrow> Market" where
  "update_market w a existingMarket =
     (let m1 = existingMarket \<lparr> Market.volume := jsobj.volume a \<rparr>;
          m2 = (if w then m1 \<lparr> high_volume := True \<rparr> else m1)
      in m2 \<lparr> Market.last_price := jsobj.last_price a, last_update := created_time a \<rparr>)"

text \<open>
  The body of the loop over the aligned trades. An aligned trade whose ticker is not a key
  of the cache is skipped (\<^verbatim>\<open>continue\<close>). The entry of a market that exists is changed in
  place, so it keeps its position in the map.
\<close>

definition fold_step :: "cache \<Rightarrow> rat \<Rightarrow> marketsMap \<Rightarrow> jsobj \<Rightarrow> marketsMap" where
  "fold_step c threshold mm a =
     (if \<not> Map_has c (ticker a) then mm
      else
        (let w = isWhaleTrade threshold a
         in if \<not> Map_has mm (ticker a)
            then AList.update (ticker a) (new_market w a) mm
            else (case map_of mm (ticker a) of
                    None \<Rightarrow> mm
                  | Some existingMarket \<Rightarrow>
                      AList.update (ticker a) (update_market w a existingMarket) mm)))"

definition rollup :: "cache \<Rightarrow> rat \<Rightarrow> jsobj list \<Rightarrow> marketsMap" where
  "rollup c threshold aligned = foldl (fold_step c threshold) [] aligned"

subsection \<open>Output filters\<close>

definition lower_char :: "char \<Rightarrow> char" where
  "lower_char c =
     (case map_of (zip ''ABCDEFGHIJKLMNOPQRSTUVWXYZ'' ''abcdefghijklmnopqrstuvwxyz'') c of
        None \<Rightarrow> c
      | Some l \<Rightarrow> l)"

text \<open>
  \<^verbatim>\<open>toLowerCase\<close>, \<^verbatim>\<open>trim\<close> and \<^verbatim>\<open>includes\<close> (here \<open>includes_str\<close>) on ASCII strings (a character beyond ASCII is kept
  as it is, and is no white space).
\<close>

definition toLowerCase :: "string \<Rightarrow> string" where
  "toLowerCase s = map lower_char s"

definition is_space :: "char \<Rightarrow> bool" where
  "is_space c = ((of_char c :: nat) \<in> {9, 10, 11, 12, 13, 32})"

definition trim :: "string \<Rightarrow> string" where
  "trim s = rev (dropWhile is_space (rev (dropWhile is_space s)))"

fun includes_str :: "string \<Rightarrow> string \<Rightarrow> bool" where
  "includes_str [] k = (k = [])"
| "includes_str (c # s) k = (take (length k) (c # s) = k \<or> includes_str s k)"

definition cryptoKeywords :: "string list" where
  "cryptoKeywords =
     [''btc'', ''eth'', ''crypto'', ''bitcoin'', ''ethereum'',
      ''sol'', ''solana'', ''bch'', ''ada'', ''cardano'', ''matic'',
      ''polygon'', ''dot'', ''polkadot'', ''link'', ''chainlink'',
      ''ltc'', ''litecoin'', ''xrp'']"

definition titled :: "Market \<Rightarrow> bool" where
  "titled m = (Market.title m \<noteq> [] \<and> trim (Market.title m) \<noteq> []
                 \<and> Market.title m \<noteq> ''Unknown Title'')"

definition crypto :: "Market \<Rightarrow> bool" where
  "crypto m =
     (let tk = (case ticker_symbol m of None \<Rightarrow> [] | Some s \<Rightarrow> toLowerCase s);
          tt = toLowerCase (Market.title m)
      in list_ex (\<lambda>keyword. includes_str tk keyword \<or> includes_str tt keyword) cryptoKeywords)"

subsection \<open>The refresh cycle\<close>

record MarketsResponse =
  markets :: "Market list"
  count :: nat
  timestamp :: string

text \<open>
  \<^verbatim>\<open>queryFn\<close>: the two upstreams and the clock are its inputs. It returns the response, or
  the exception that it throws.
\<close>

definition queryFn :: "trades_upstream \<Rightarrow> market_upstream \<Rightarrow> string \<Rightarrow> error + MarketsResponse" where
  "queryFn tradesFetcher marketFetcher now =
     (let ts = fst (paginate tradesFetcher);
          tickers = marketTickers ts
      in case marketInfoCache marketFetcher tickers of
           Inl e \<Rightarrow> Inl e
         | Inr c \<Rightarrow>
             (case whaleThreshold c of
                Inl e \<Rightarrow> Inl e
              | Inr threshold \<Rightarrow>
                  (let mm = rollup c threshold (alignedMarkets c ts);
                       finalMarkets = map snd mm;
                       titledMarkets = filter titled finalMarkets;
                       filteredCryptoMarkets = filter crypto titledMarkets
                   in Inr \<lparr> markets = filteredCryptoMarkets,
                            count = length filteredCryptoMarkets,
                            timestamp = now \<rparr>)))"

section \<open>Whale alerts view\<close>

record WhaleSignalData =
  current_value :: "rat option"
  growth_multiple :: rat

text \<open>The alert built for one market; its \<^verbatim>\<open>id\<close> is named \<open>ident\<close>, its \<^verbatim>\<open>type\<close> \<open>signal_type\<close>.\<close>

record WhaleSignal =
  ident :: string
  signal_type :: string
  ticker :: string
  severity :: string
  confidence :: nat
  market_impact :: string
  data :: WhaleSignalData
  timestamp :: "string option"
  description :: string

record detection_types =
  volume_surge :: bool
  odds_flip :: bool
  order_book_shift :: bool
  high_volume :: bool

record thresholds =
  volume_surge_multiplier :: nat
  odds_change_percent :: nat
  order_book_change_percent :: nat
  minimum_volume :: nat

record WhaleAlertsData =
  alerts :: "WhaleSignal list"
  count :: nat
  whale_signals_count :: nat
  high_volume_count :: nat
  detection_types :: detection_types
  thresholds :: thresholds

record WhaleAlertsResponse =
  data :: WhaleAlertsData
  timestamp :: string
  status :: string

text \<open>A template literal prints an absent value as \<^verbatim>\<open>undefined\<close>.\<close>

definition template :: "string option \<Rightarrow> string" where
  "template x = (case x of None \<Rightarrow> ''undefined'' | Some s \<Rightarrow> s)"

definition to_signal :: "Market \<Rightarrow> WhaleSignal" where
  "to_signal m =
     \<lparr> ident = ''hv-'' @ template (Market.ident m),
       signal_type = ''volume_surge'',
       ticker = str_or_lit (ticker_symbol m) ''N/A'',
       severity = ''medium'',
       confidence = 80,
       market_impact = ''high'',
       data = \<lparr> current_value = Market.volume m, growth_multiple = 3.5 \<rparr>,
       timestamp = last_update m,
       description = ''Whale activity detected on '' @ Market.title m \<rparr>"

text \<open>
  \<^verbatim>\<open>useWhaleAlerts\<close>, as a function of the result of the markets query (\<open>None\<close> while there
  is none) and of the clock.
\<close>

definition useWhaleAlerts :: "MarketsResponse option \<Rightarrow> string \<Rightarrow> WhaleAlertsResponse" where
  "useWhaleAlerts marketData now =
     (let whaleAlerts =
            map to_signal
              (filter Market.high_volume
                 (case marketData of None \<Rightarrow> [] | Some d \<Rightarrow> markets d))
      in \<lparr> data =
             \<lparr> alerts = whaleAlerts,
               count = length whaleAlerts,
               whale_signals_count = length whaleAlerts,
               high_volume_count = length whaleAlerts,
               detection_types =
                 \<lparr> volume_surge = True, odds_flip = False, order_book_shift = False,
                   high_volume = True \<rparr>,
               thresholds =
                 \<lparr> volume_surge_multiplier = 3, odds_change_percent = 15,
                   order_book_change_percent = 25, minimum_volume = 100000 \<rparr> \<rparr>,
           timestamp = now,
           status = ''success'' \<rparr>)"

section \<open>Market lookup routes\<close>

text \<open>
  The route \<^verbatim>\<open>/api/kalshi/market/[ticker]\<close> exists in two revisions: one with the event
  fallback, and the current one, which restricts the tickers to a list of prefixes and has
  no fallback. The upstream API is a function of the request; a request either fails in the
  network or gets a response, whose body may or may not parse as JSON.
\<close>

datatype kalshi_request = MarketsReq string | EventsReq string

record api_response =
  code :: nat
  json :: "json_body option"
  body_text :: string

datatype fetch_result = NetworkError | Response api_response

type_synonym kalshi = "kalshi_request \<Rightarrow> fetch_result"

text \<open>\<^verbatim>\<open>apiResponse.ok\<close>: the status is in the range 200 to 299.\<close>

definition ok :: "api_response \<Rightarrow> bool" where
  "ok r = (200 \<le> code r \<and> code r \<le> 299)"

text \<open>
  The answer of a route: the JSON data with status 200, or a status with a message and,
  where the route copies it, the text of the upstream's answer (the text of a caught
  exception is not modelled).
\<close>

datatype next_response = Data json_body | Message nat string "string option"

text \<open>The \<^verbatim>\<open>catch\<close> block of both revisions.\<close>

definition internal_error :: next_response where
  "internal_error = Message 500 ''Internal Server Error'' None"

definition pass_through :: "api_response \<Rightarrow> next_response" where
  "pass_through r = (case json r of None \<Rightarrow> internal_error | Some d \<Rightarrow> Data d)"

definition failed_to_fetch :: "string \<Rightarrow> api_response \<Rightarrow> next_response" where
  "failed_to_fetch tk r =
     Message (code r) (''Failed to fetch data for ticker '' @ tk) (Some (body_text r))"

text \<open>
  The revision with the fallback. The second component is the list of the requests sent
  upstream, in order.
\<close>

definition GET_fallback :: "kalshi \<Rightarrow> string \<Rightarrow> next_response \<times> kalshi_request list" where
  "GET_fallback upstream tk =
     (if tk = [] then (Message 400 ''Market ticker is required'' None, [])
      else
        (case upstream (MarketsReq tk) of
           NetworkError \<Rightarrow> (internal_error, [MarketsReq tk])
         | Response r \<Rightarrow>
             if ok r then (pass_through r, [MarketsReq tk])
             else if code r = 404 then
               (case upstream (EventsReq tk) of
                  NetworkError \<Rightarrow> (internal_error, [MarketsReq tk, EventsReq tk])
                | Response r2 \<Rightarrow>
                    if ok r2 then (pass_through r2, [MarketsReq tk, EventsReq tk])
                    else (failed_to_fetch tk r2, [MarketsReq tk, EventsReq tk]))
             else (failed_to_fetch tk r, [MarketsReq tk])))"

definition ALLOWED_TICKER_PREFIXES :: "string list" where
  "ALLOWED_TICKER_PREFIXES =
     [''KXBTC'', ''KXETH'', ''KXSOL'', ''KXCRYPTO'', ''KXBCH'', ''KXADA'', ''KXMATIC'',
      ''KXDOT'', ''KXLINK'', ''KXLTC'', ''KXXRP'']"

definition startsWith :: "string \<Rightarrow> string \<Rightarrow> bool" where
  "startsWith s p = (take (length p) s = p)"

definition isAllowed :: "string \<Rightarrow> bool" where
  "isAllowed tk = list_ex (\<lambda>p. startsWith tk p) ALLOWED_TICKER_PREFIXES"

text \<open>The current revision: the allow-list, and no event fallback.\<close>

definition GET_scoped :: "kalshi \<Rightarrow> string \<Rightarrow> next_response \<times> kalshi_request list" where
  "GET_scoped upstream tk =
     (if tk = [] then (Message 400 ''Market ticker is required'' None, [])
      else if \<not> isAllowed tk
      then (Message 422 (''Ticker '' @ tk @ '' is not a relevant crypto market.'') None, [])
      else
        (case upstream (MarketsReq tk) of
           NetworkError \<Rightarrow> (internal_error, [MarketsReq tk])
         | Response r \<Rightarrow>
             if ok r then (pass_through r, [MarketsReq tk])
             else (failed_to_fetch tk r, [MarketsReq tk])))"

text \<open>
  What the client's \<^verbatim>\<open>fetcher\<close> makes of the answer of the route: it throws unless the
  status is in the range 200 to 299; a message read as market information has neither a
  \<^verbatim>\<open>market\<close> nor an \<^verbatim>\<open>event\<close>.
\<close>

definition fetcher_of :: "next_response \<Rightarrow> json_body settled" where
  "fetcher_of a =
     (case a of
        Data d \<Rightarrow> Fulfilled d
      | Message st msg err \<Rightarrow>
          if 200 \<le> st \<and> st \<le> 299
          then Fulfilled (Object \<lparr> market = None, event = None \<rparr>)
          else Rejected)"

section \<open>Concrete inputs\<close>

text \<open>An upstream whose every trade page request fails, and a market upstream that rejects.\<close>

definition failing_trades :: trades_upstream where
  "failing_trades i c = Rejected"

definition failing_markets :: market_upstream where
  "failing_markets k = Rejected"

text \<open>An upstream with a single page of trades and no cursor.\<close>

definition one_page :: "jsobj list \<Rightarrow> trades_upstream" where
  "one_page ts i c = Fulfilled \<lparr> trades = Some ts, cursor = None \<rparr>"

text \<open>A market upstream that resolves the tickers of a table to its records, and no other.\<close>

definition markets_of :: "cache \<Rightarrow> market_upstream" where
  "markets_of c k =
     (case Map_get c k of
        None \<Rightarrow> Rejected
      | Some d \<Rightarrow> Fulfilled (Object \<lparr> market = Some d, event = None \<rparr>))"

text \<open>
  Scenario A: a trade of 10 contracts at 60 cents on the ticker X, whose market has a
  24-hour volume of 1000 and a last price of 50. The creation time of the trade and the
  title of the market are left open.
\<close>

definition tradeA :: "string \<Rightarrow> jsobj" where
  "tradeA t1 = empty_obj \<lparr> jsobj.ticker := Some ''X'', jsobj.count := Some 10,
     price := Some 60, created_time := Some t1 \<rparr>"

definition marketA :: "string option \<Rightarrow> jsobj" where
  "marketA ttl = empty_obj \<lparr> jsobj.volume_24h := Some 1000, jsobj.last_price := Some 50,
     jsobj.title := ttl \<rparr>"

definition cacheA :: "string option \<Rightarrow> cache" where
  "cacheA ttl = [(Some ''X'', Some (marketA ttl))]"

text \<open>A trade of 2 contracts at 60 cents on X: 1.20 dollars.\<close>

definition small_trade :: jsobj where
  "small_trade = empty_obj \<lparr> jsobj.ticker := Some ''X'', jsobj.count := Some 2,
     price := Some 60, created_time := Some ''t2'' \<rparr>"

text \<open>The market of scenario A with twice the 24-hour volume.\<close>

definition marketA2 :: jsobj where
  "marketA2 = empty_obj \<lparr> jsobj.volume_24h := Some 2000, jsobj.last_price := Some 50 \<rparr>"

text \<open>
  A market upstream that resolves X as a market and Z as an event, and rejects every other
  ticker.
\<close>

definition x_and_z :: market_upstream where
  "x_and_z k =
     (if k = Some ''X'' then Fulfilled (Object \<lparr> market = Some marketA2, event = None \<rparr>)
      else if k = Some ''Z'' then Fulfilled (Object \<lparr> market = None, event = Some marketA2 \<rparr>)
      else Rejected)"

text \<open>
  Two market upstreams outside the declared types: one answers every lookup with an object
  that has neither a \<^verbatim>\<open>market\<close> nor an \<^verbatim>\<open>event\<close>, the other with \<^verbatim>\<open>null\<close>.
\<close>

definition bare_markets :: market_upstream where
  "bare_markets k = Fulfilled (Object \<lparr> market = None, event = None \<rparr>)"

definition null_markets :: market_upstream where
  "null_markets k = Fulfilled Null"

text \<open>The cache that \<^verbatim>\<open>queryFn\<close> builds from its two upstreams.\<close>

definition cache_of :: "trades_upstream \<Rightarrow> market_upstream \<Rightarrow> error + cache" where
  "cache_of tradesFetcher marketFetcher =
     marketInfoCache marketFetcher (marketTickers (fst (paginate tradesFetcher)))"

text \<open>A trade of a million contracts at 99 cents on the ticker Z.\<close>

definition tradeZ :: jsobj where
  "tradeZ = empty_obj \<lparr> jsobj.ticker := Some ''Z'', jsobj.count := Some 1000000,
     price := Some 99, created_time := Some ''t0'' \<rparr>"

text \<open>
  Scenario C: two trades on the ticker Y, of 10 contracts and of 1 contract at 60 cents.
  The market of Y has a 24-hour volume of 1000, a last price of 50 and a volume of 5000.
\<close>

definition tradeY1 :: jsobj where
  "tradeY1 = empty_obj \<lparr> jsobj.ticker := Some ''Y'', jsobj.count := Some 10,
     price := Some 60, created_time := Some ''t1'' \<rparr>"

definition tradeY2 :: jsobj where
  "tradeY2 = empty_obj \<lparr> jsobj.ticker := Some ''Y'', jsobj.count := Some 1,
     price := Some 60, created_time := Some ''t2'' \<rparr>"

definition marketY :: jsobj where
  "marketY = empty_obj \<lparr> jsobj.volume_24h := Some 1000, jsobj.last_price := Some 50,
     jsobj.volume := Some 5000 \<rparr>"

definition cacheY :: cache where
  "cacheY = [(Some ''Y'', Some marketY)]"

text \<open>The first trade of scenario C with 20 contracts in place of 10.\<close>

definition tradeY1b :: jsobj where
  "tradeY1b = empty_obj \<lparr> jsobj.ticker := Some ''Y'', jsobj.count := Some 20,
     price := Some 60, created_time := Some ''t1'' \<rparr>"

text \<open>
  An upstream API that knows no market (status 404) and answers every event lookup with
  an event record.
\<close>

definition event_only :: kalshi where
  "event_only req =
     (case req of
        MarketsReq tk \<Rightarrow> Response \<lparr> code = 404, json = None, body_text = ''not found'' \<rparr>
      | EventsReq tk \<Rightarrow>
          Response \<lparr> code = 200,
            json = Some (Object \<lparr> market = None, event = Some marketA2 \<rparr>),
            body_text = [] \<rparr>)"

declare pagination_loop.simps [simp del]

section \<open>Evaluation on concrete inputs\<close>

lemmas scenario_defs = tradeA_def marketA_def cacheA_def empty_obj_def marketA2_def

lemmas resolver_defs = marketInfoCache_def marketTickers_def new_Set_def Set_add_def
  marketInfoResults_def build_cache_def cache_step_def obj_or_def markets_of_def Map_get_def

lemmas threshold_defs = whaleThreshold_def marketNotionalVolume24h_def num_or_0_def

lemmas rollup_defs = rollup_def alignedMarkets_def align_def spread_def over_def Map_get_def
  fold_step_def Map_has_def isWhaleTrade_def tradeNotionalValue_def num_or_0_def
  new_market_def update_market_def str_or_def str_or_lit_def truthy_def

lemmas filter_defs = titled_def crypto_def trim_def is_space_def toLowerCase_def
  lower_char_def cryptoKeywords_def

lemma paginate_one_page: "paginate (one_page ts) = (ts, [None])"
  by (simp add: paginate_def pagination_loop.simps [of _ 0] MAX_PAGES_TO_FETCH_def
        truthy_def one_page_def)

lemma cacheA_resolved:
  "marketInfoCache (markets_of (cacheA ttl)) (marketTickers [tradeA t1]) = Inr (cacheA ttl)"
  by (simp add: scenario_defs resolver_defs)

lemma cacheA_threshold: "whaleThreshold (cacheA ttl) = Inr 62.5"
  by (simp add: scenario_defs threshold_defs)

section \<open>The pagination loop\<close>



section \<open>Bounded pagination\<close>



section \<open>Failure of the first page\<close>

lemma paginate_first_fails:
  "fetcher 0 None = Rejected \<Longrightarrow> paginate fetcher = ([], [None])"
  by (simp add: paginate_def pagination_loop.simps [of fetcher 0] MAX_PAGES_TO_FETCH_def
        truthy_def)

lemma queryFn_no_trades:
  "fst (paginate tradesFetcher) = [] \<Longrightarrow>
     queryFn tradesFetcher marketFetcher now
       = Inr \<lparr> markets = [], MarketsResponse.count = 0, timestamp = now \<rparr>"
  by (simp add: queryFn_def marketTickers_def new_Set_def marketInfoCache_def
        marketInfoResults_def build_cache_def whaleThreshold_def alignedMarkets_def
        rollup_def)

text \<open>
  Claim C5, as the code has it. When the first trade page request fails, the \<^verbatim>\<open>catch\<close>
  block leaves the loop after this one request; the cycle goes on with no trades and
  returns a successful response with an empty market list and the count 0. No error
  reaches the caller.
\<close>

theorem first_page_failure_is_empty_success:
  "tradesFetcher 0 None = Rejected \<Longrightarrow>
     paginate tradesFetcher = ([], [None])
     \<and> queryFn tradesFetcher marketFetcher now
         = Inr \<lparr> markets = [], MarketsResponse.count = 0, timestamp = now \<rparr>"
  using paginate_first_fails [of tradesFetcher]
    queryFn_no_trades [of tradesFetcher marketFetcher now]
  by simp

theorem first_page_failure_is_empty_success_witness:
  "failing_trades 0 None = Rejected
   \<and> paginate failing_trades = ([], [None])
   \<and> queryFn failing_trades failing_markets ''2025-01-01T00:00:00.000Z''
       = Inr \<lparr> markets = [], MarketsResponse.count = 0,
               timestamp = ''2025-01-01T00:00:00.000Z'' \<rparr>"
  using first_page_failure_is_empty_success
    [of failing_trades failing_markets "''2025-01-01T00:00:00.000Z''"]
  by (simp add: failing_trades_def)

text \<open>
  The claim as the specification states it (an error, and not an empty success) fails:
  with the first page request rejected, the cycle returns \<open>Inr\<close>, a success, with no market.
\<close>

theorem first_page_failure_counterexample:
  "failing_trades 0 None = Rejected
   \<and> queryFn failing_trades failing_markets ''now'' \<noteq> Inl TypeError
   \<and> queryFn failing_trades failing_markets ''now''
       = Inr \<lparr> markets = [], MarketsResponse.count = 0, timestamp = ''now'' \<rparr>"
proof -
  have "paginate failing_trades = ([], [None])"
    by (rule paginate_first_fails) (simp add: failing_trades_def)
  then have "fst (paginate failing_trades) = []" by simp
  from queryFn_no_trades [OF this, of failing_markets "''now''"]
  show ?thesis by (simp add: failing_trades_def)
qed

section \<open>Whale alerts view\<close>

text \<open>
  Claim C10. For every result of the markets view, also when there is none yet, the fields
  \<open>count\<close>, \<open>whale_signals_count\<close> and \<open>high_volume_count\<close> of the whale alerts response are
  all the number of markets of the view whose \<open>high_volume\<close> flag is true, and this is the
  length of \<open>alerts\<close>.
\<close>

theorem whale_alert_counts:
  "WhaleAlertsData.count (data (useWhaleAlerts marketData now))
     = length (filter Market.high_volume
                 (case marketData of None \<Rightarrow> [] | Some d \<Rightarrow> markets d))
   \<and> whale_signals_count (data (useWhaleAlerts marketData now))
     = WhaleAlertsData.count (data (useWhaleAlerts marketData now))
   \<and> high_volume_count (data (useWhaleAlerts marketData now))
     = WhaleAlertsData.count (data (useWhaleAlerts marketData now))
   \<and> length (alerts (data (useWhaleAlerts marketData now)))
     = WhaleAlertsData.count (data (useWhaleAlerts marketData now))"
  by (simp add: useWhaleAlerts_def Let_def)

section \<open>Monotonicity of the threshold\<close>

text \<open>
  Two lists of cache values are related when they are \<^verbatim>\<open>undefined\<close> at the same places and
  each market of the second has at least the 24-hour notional volume of its counterpart.
\<close>

lemma maxNotionalVolume_loop_mono:
  "list_all2 (\<lambda>x y. case x of None \<Rightarrow> y = None
                     | Some m \<Rightarrow> (case y of None \<Rightarrow> False
                         | Some m' \<Rightarrow> marketNotionalVolume24h m \<le> marketNotionalVolume24h m'))
     vs vs' \<Longrightarrow>
   mx \<le> mx' \<Longrightarrow> maxNotionalVolume_loop mx vs = Inr a \<Longrightarrow>
   \<exists>b. maxNotionalVolume_loop mx' vs' = Inr b \<and> a \<le> b"
proof (induction vs vs' arbitrary: mx mx' rule: list_all2_induct)
  case Nil
  then show ?case by simp
next
  case (Cons x xs y ys)
  show ?case
  proof (cases x)
    case None
    with Cons.prems show ?thesis by simp
  next
    case (Some m)
    with Cons.hyps obtain m' where y: "y = Some m'"
      and le: "marketNotionalVolume24h m \<le> marketNotionalVolume24h m'"
      by (auto split: option.splits)
    have "(if marketNotionalVolume24h m > mx then marketNotionalVolume24h m else mx)
            \<le> (if marketNotionalVolume24h m' > mx' then marketNotionalVolume24h m' else mx')"
      using le Cons.prems(1) by auto
    from Cons.IH [OF this] Cons.prems(2) Some y show ?thesis by simp
  qed
qed

text \<open>
  Claim C6. In a cache for which the threshold is computed, replacing the record of one
  market by a record with at least the same 24-hour notional volume, all other entries
  unchanged, gives a threshold that is computed too and is not smaller.
\<close>

theorem whaleThreshold_monotone:
  assumes "i < length c" and "c ! i = (k, Some m)"
    and "marketNotionalVolume24h m \<le> marketNotionalVolume24h m'"
    and "whaleThreshold c = Inr a"
  shows "\<exists>b. whaleThreshold (c[i := (k, Some m')]) = Inr b \<and> a \<le> b"
proof -
  let ?R = "\<lambda>x y. case x of None \<Rightarrow> y = None
                     | Some m \<Rightarrow> (case y of None \<Rightarrow> False
                         | Some m' \<Rightarrow> marketNotionalVolume24h m \<le> marketNotionalVolume24h m')"
  have refl: "list_all2 ?R (map snd c) (map snd c)"
    by (rule list_all2_refl) (simp split: option.splits)
  have "?R (map snd c ! i) (Some m')"
    using assms(1-3) by simp
  with refl have "list_all2 ?R ((map snd c)[i := map snd c ! i]) ((map snd c)[i := Some m'])"
    by (rule list_all2_update_cong)
  then have rel: "list_all2 ?R (map snd c) ((map snd c)[i := Some m'])"
    by simp
  have upd: "map snd (c[i := (k, Some m')]) = (map snd c)[i := Some m']"
    by (simp add: map_update)
  from assms(4) obtain mx where mx: "maxNotionalVolume_loop 0 (map snd c) = Inr mx"
    and a: "a = mx * 0.125"
    by (auto simp: whaleThreshold_def split: sum.splits)
  from maxNotionalVolume_loop_mono [OF rel order_refl mx]
  obtain b where b: "maxNotionalVolume_loop 0 ((map snd c)[i := Some m']) = Inr b" "mx \<le> b"
    by blast
  have "whaleThreshold (c[i := (k, Some m')]) = Inr (b * 0.125)"
    unfolding whaleThreshold_def upd b(1) by simp
  moreover have "a \<le> b * 0.125"
    using a b(2) by simp
  ultimately show ?thesis by blast
qed

text \<open>Doubling the 24-hour volume of the market of scenario A.\<close>

theorem whaleThreshold_monotone_witness:
  "0 < length (cacheA None) \<and> cacheA None ! 0 = (Some ''X'', Some (marketA None))
   \<and> marketNotionalVolume24h (marketA None) \<le> marketNotionalVolume24h marketA2
   \<and> whaleThreshold (cacheA None) = Inr 62.5
   \<and> (\<exists>b. whaleThreshold ((cacheA None)[0 := (Some ''X'', Some marketA2)]) = Inr b
          \<and> 62.5 \<le> b)"
proof -
  have 1: "0 < length (cacheA None)" by (simp add: cacheA_def)
  have 2: "cacheA None ! 0 = (Some ''X'', Some (marketA None))" by (simp add: cacheA_def)
  have 3: "marketNotionalVolume24h (marketA None) \<le> marketNotionalVolume24h marketA2"
    by (simp add: scenario_defs threshold_defs)
  have 4: "whaleThreshold (cacheA None) = Inr 62.5" by (rule cacheA_threshold)
  from whaleThreshold_monotone [OF 1 2 3 4] 1 2 3 4 show ?thesis by blast
qed

section \<open>Scenario A\<close>

text \<open>
  Claim C1. In scenario A the resolver's table maps X to the market, whose 24-hour notional
  volume is 500; the threshold is 62.5; the notional value of the trade is 600, which
  exceeds it; and the rollup map holds one entry, for X, whose \<open>high_volume\<close> flag is true.
  When the market has a title that passes the output filters, this entry is the one market
  of the response.
\<close>

theorem scenario_A_whale:
  "marketInfoCache (markets_of (cacheA ttl)) (marketTickers [tradeA t1]) = Inr (cacheA ttl)
   \<and> marketNotionalVolume24h (marketA ttl) = 1000 * 50 / 100
   \<and> whaleThreshold (cacheA ttl) = Inr 62.5
   \<and> tradeNotionalValue (align (cacheA ttl) (tradeA t1)) = 600
   \<and> isWhaleTrade 62.5 (align (cacheA ttl) (tradeA t1))
   \<and> map (\<lambda>p. (fst p, Market.high_volume (snd p)))
        (rollup (cacheA ttl) 62.5 (alignedMarkets (cacheA ttl) [tradeA t1]))
      = [(Some ''X'', True)]
   \<and> (case queryFn (one_page [tradeA t1])
              (markets_of (cacheA (Some ''Bitcoin above 100k''))) now of
         Inl e \<Rightarrow> False
       | Inr r \<Rightarrow>
           map (\<lambda>m. (ticker_symbol m, Market.high_volume m)) (markets r)
             = [(Some ''X'', True)]
           \<and> MarketsResponse.count r = 1)"
proof -
  have 1: "marketNotionalVolume24h (marketA ttl) = 1000 * 50 / 100"
    by (simp add: scenario_defs threshold_defs)
  have 2: "tradeNotionalValue (align (cacheA ttl) (tradeA t1)) = 600"
    by (simp add: scenario_defs rollup_defs)
  have 3: "isWhaleTrade 62.5 (align (cacheA ttl) (tradeA t1))"
    by (simp add: scenario_defs rollup_defs)
  have 4: "map (\<lambda>p. (fst p, Market.high_volume (snd p)))
        (rollup (cacheA ttl) 62.5 (alignedMarkets (cacheA ttl) [tradeA t1]))
      = [(Some ''X'', True)]"
    by (simp add: scenario_defs rollup_defs)
  have 5: "(case queryFn (one_page [tradeA t1])
              (markets_of (cacheA (Some ''Bitcoin above 100k''))) now of
         Inl e \<Rightarrow> False
       | Inr r \<Rightarrow>
           map (\<lambda>m. (ticker_symbol m, Market.high_volume m)) (markets r)
             = [(Some ''X'', True)]
           \<and> MarketsResponse.count r = 1)"
    unfolding queryFn_def paginate_one_page fst_conv Let_def cacheA_resolved
      cacheA_threshold sum.case
    by (simp add: scenario_defs rollup_defs filter_defs)
  from cacheA_resolved [of ttl t1] cacheA_threshold [of ttl] 1 2 3 4 5
  show ?thesis by blast
qed

section \<open>Units of the two sides of the whale check\<close>

text \<open>
  Claim C2 states that the notional value of a trade is divided by 100 as the 24-hour
  notional volume of a market is. The code multiplies the count by the price in cents and
  does not divide, although its comment calls the value one in dollars: the same
  contracts at the same price weigh 100 times more on the side of the trade. In scenario A
  a trade of 2 contracts at 60 cents, worth 1.20 dollars, has the notional value 120 and
  is a whale trade against the threshold of 62.5 dollars, while 1.20 does not exceed 62.5.
\<close>

theorem trade_notional_not_normalized:
  "tradeNotionalValue
     (empty_obj \<lparr> jsobj.count := jsobj.volume_24h m, price := jsobj.last_price m \<rparr>)
     = 100 * marketNotionalVolume24h m
   \<and> whaleThreshold (cacheA ttl) = Inr 62.5
   \<and> tradeNotionalValue (align (cacheA ttl) small_trade) = 120
   \<and> \<not> tradeNotionalValue (align (cacheA ttl) small_trade) / 100 > 62.5
   \<and> isWhaleTrade 62.5 (align (cacheA ttl) small_trade)
   \<and> map (\<lambda>p. (fst p, Market.high_volume (snd p)))
        (rollup (cacheA ttl) 62.5 (alignedMarkets (cacheA ttl) [small_trade]))
      = [(Some ''X'', True)]"
proof -
  have 1: "tradeNotionalValue
     (empty_obj \<lparr> jsobj.count := jsobj.volume_24h m, price := jsobj.last_price m \<rparr>)
     = 100 * marketNotionalVolume24h m"
    by (simp add: tradeNotionalValue_def marketNotionalVolume24h_def empty_obj_def)
  have 2: "tradeNotionalValue (align (cacheA ttl) small_trade) = 120"
    by (simp add: scenario_defs small_trade_def rollup_defs)
  have 3: "isWhaleTrade 62.5 (align (cacheA ttl) small_trade)"
    by (simp add: scenario_defs small_trade_def rollup_defs)
  have 4: "map (\<lambda>p. (fst p, Market.high_volume (snd p)))
        (rollup (cacheA ttl) 62.5 (alignedMarkets (cacheA ttl) [small_trade]))
      = [(Some ''X'', True)]"
    by (simp add: scenario_defs small_trade_def rollup_defs)
  from 1 2 3 4 cacheA_threshold [of ttl] show ?thesis by simp
qed

section \<open>The table of the resolver\<close>

lemma Map_has_iff: "Map_has m k \<longleftrightarrow> map_of m k \<noteq> None"
  by (simp add: Map_has_def map_of_eq_None_iff)

text \<open>
  When no body is \<^verbatim>\<open>null\<close> the \<^verbatim>\<open>forEach\<close> ends without an exception, and the entry of
  every ticker is decided by the outcome of its own lookup.
\<close>

lemma forEach_cache_ok:
  assumes "\<forall>k \<in> set ks. f k \<noteq> Fulfilled Null"
  shows "\<exists>c'. forEach_cache c (zip ks (map f ks)) = Inr c'
     \<and> (\<forall>k. map_of c' k =
           (if k \<in> set ks
            then (case f k of
                    Rejected \<Rightarrow> map_of c k
                  | Fulfilled b \<Rightarrow>
                      (case b of Null \<Rightarrow> None
                       | Object v \<Rightarrow> Some (obj_or (market v) (event v))))
            else map_of c k))
     \<and> (distinct (map fst c) \<longrightarrow> distinct (map fst c'))"
  using assms
proof (induction ks arbitrary: c)
  case Nil
  then show ?case by simp
next
  case (Cons x xs)
  then have xs: "\<forall>k \<in> set xs. f k \<noteq> Fulfilled Null" and x: "f x \<noteq> Fulfilled Null"
    by simp_all
  show ?case
  proof (cases "f x")
    case Rejected
    from Cons.IH [OF xs, of c] obtain c' where
      "forEach_cache c (zip xs (map f xs)) = Inr c'"
      "\<forall>k. map_of c' k =
           (if k \<in> set xs
            then (case f k of
                    Rejected \<Rightarrow> map_of c k
                  | Fulfilled b \<Rightarrow>
                      (case b of Null \<Rightarrow> None
                       | Object v \<Rightarrow> Some (obj_or (market v) (event v))))
            else map_of c k)"
      "distinct (map fst c) \<longrightarrow> distinct (map fst c')"
      by blast
    with Rejected show ?thesis
      by (intro exI [of _ c']) (auto simp: cache_step_def)
  next
    case (Fulfilled b)
    with x obtain v where b: "b = Object v" by (cases b) auto
    define c1 where "c1 = AList.update x (obj_or (market v) (event v)) c"
    from Cons.IH [OF xs, of c1] obtain c' where c':
      "forEach_cache c1 (zip xs (map f xs)) = Inr c'"
      "\<forall>k. map_of c' k =
           (if k \<in> set xs
            then (case f k of
                    Rejected \<Rightarrow> map_of c1 k
                  | Fulfilled b \<Rightarrow>
                      (case b of Null \<Rightarrow> None
                       | Object v \<Rightarrow> Some (obj_or (market v) (event v))))
            else map_of c1 k)"
      "distinct (map fst c1) \<longrightarrow> distinct (map fst c')"
      by blast
    have m1: "map_of c1 k = (if k = x then Some (obj_or (market v) (event v)) else map_of c k)"
      for k by (simp add: c1_def update_conv')
    have d1: "distinct (map fst c) \<Longrightarrow> distinct (map fst c1)"
      by (simp add: c1_def distinct_update)
    have run: "forEach_cache c (zip (x # xs) (map f (x # xs))) = Inr c'"
      using Fulfilled b c'(1) by (simp add: cache_step_def c1_def)
    have ent: "map_of c' k =
           (if k \<in> set (x # xs)
            then (case f k of
                    Rejected \<Rightarrow> map_of c k
                  | Fulfilled b \<Rightarrow>
                      (case b of Null \<Rightarrow> None
                       | Object v \<Rightarrow> Some (obj_or (market v) (event v))))
            else map_of c k)" for k
      using c'(2) Fulfilled b
      by (auto simp: m1 split: settled.splits json_body.splits)
    from run ent c'(3) d1 show ?thesis by blast
  qed
qed

lemma in_contract_not_null: "in_contract r \<Longrightarrow> r \<noteq> Fulfilled Null"
  by (auto simp: in_contract_def)

lemma in_contract_entry:
  "in_contract (Fulfilled (Object v)) \<Longrightarrow> \<exists>d. obj_or (market v) (event v) = Some d"
  by (auto simp: in_contract_def obj_or_def split: option.splits)

lemma marketInfoCache_ok:
  assumes "\<forall>k \<in> set tickers. f k \<noteq> Fulfilled Null"
  shows "\<exists>c. marketInfoCache f tickers = Inr c
     \<and> (\<forall>k. map_of c k =
           (if k \<in> set tickers
            then (case f k of
                    Rejected \<Rightarrow> None
                  | Fulfilled b \<Rightarrow>
                      (case b of Null \<Rightarrow> None
                       | Object v \<Rightarrow> Some (obj_or (market v) (event v))))
            else None))
     \<and> distinct (map fst c)"
proof -
  from forEach_cache_ok [OF assms, of "[]"] obtain c where
    run: "forEach_cache [] (zip tickers (map f tickers)) = Inr c"
    and ent: "\<forall>k. map_of c k =
           (if k \<in> set tickers
            then (case f k of
                    Rejected \<Rightarrow> map_of [] k
                  | Fulfilled b \<Rightarrow>
                      (case b of Null \<Rightarrow> None
                       | Object v \<Rightarrow> Some (obj_or (market v) (event v))))
            else map_of [] k)"
    and dist: "distinct (map fst ([] :: cache)) \<longrightarrow> distinct (map fst c)"
    by blast
  have "marketInfoCache f tickers = Inr c"
    using run by (simp add: marketInfoCache_def build_cache_def marketInfoResults_def)
  moreover have "\<forall>k. map_of c k =
           (if k \<in> set tickers
            then (case f k of
                    Rejected \<Rightarrow> None
                  | Fulfilled b \<Rightarrow>
                      (case b of Null \<Rightarrow> None
                       | Object v \<Rightarrow> Some (obj_or (market v) (event v))))
            else None)"
    using ent by (simp split: settled.splits)
  moreover have "distinct (map fst c)" using dist by simp
  ultimately show ?thesis by blast
qed

lemma keys_length:
  assumes "distinct (map fst c)" and "set (map fst c) \<subseteq> set tickers"
  shows "length c \<le> length tickers"
proof -
  have "length c = card (set (map fst c))"
    using distinct_card [OF assms(1)] by simp
  also have "\<dots> \<le> card (set tickers)"
    by (rule card_mono [OF _ assms(2)]) simp
  also have "\<dots> \<le> length tickers" by (rule card_length)
  finally show ?thesis .
qed

text \<open>
  Claim C7. Let the outcome of every lookup be within the declared types: the lookup is
  rejected, or its body carries a market record or an event record. Then the table is
  built; its keys are distinct tickers of the input, so it is no longer than the input; no
  entry is \<^verbatim>\<open>undefined\<close>; a ticker is a key exactly when it is in the input and its lookup was
  not rejected, so a failed lookup leaves no entry; the entry of a fulfilled lookup is the
  market record of its body, or else the event record; and when the lookup of any one
  ticker \<open>j\<close> fails instead, the table is built all the same and the entry of every other
  ticker is unchanged.
\<close>

theorem resolver_table:
  assumes "\<forall>k \<in> set tickers. in_contract (f k)"
  shows "\<exists>c. marketInfoCache f tickers = Inr c
     \<and> set (map fst c) \<subseteq> set tickers
     \<and> distinct (map fst c)
     \<and> length c \<le> length tickers
     \<and> (\<forall>k. map_of c k \<noteq> Some None)
     \<and> (\<forall>k. Map_has c k \<longleftrightarrow> k \<in> set tickers \<and> f k \<noteq> Rejected)
     \<and> (\<forall>k v. k \<in> set tickers \<and> f k = Fulfilled (Object v) \<longrightarrow>
            map_of c k = Some (obj_or (market v) (event v)))
     \<and> (\<forall>j. \<exists>c'. marketInfoCache (f(j := Rejected)) tickers = Inr c'
            \<and> (\<forall>k. k \<noteq> j \<longrightarrow> map_of c' k = map_of c k))"
proof -
  have nn: "\<forall>k \<in> set tickers. f k \<noteq> Fulfilled Null"
    using assms in_contract_not_null by blast
  from marketInfoCache_ok [OF nn] obtain c where c: "marketInfoCache f tickers = Inr c"
    and ent: "\<And>k. map_of c k =
           (if k \<in> set tickers
            then (case f k of
                    Rejected \<Rightarrow> None
                  | Fulfilled b \<Rightarrow>
                      (case b of Null \<Rightarrow> None
                       | Object v \<Rightarrow> Some (obj_or (market v) (event v))))
            else None)"
    and dist: "distinct (map fst c)"
    by blast
  have has: "Map_has c k \<longleftrightarrow> k \<in> set tickers \<and> f k \<noteq> Rejected" for k
    using nn by (auto simp: Map_has_iff ent split: settled.splits json_body.splits)
  have keys: "set (map fst c) \<subseteq> set tickers"
    using has by (auto simp: Map_has_def)
  have len: "length c \<le> length tickers"
    by (rule keys_length [OF dist keys])
  have def: "map_of c k \<noteq> Some None" for k
  proof (cases "k \<in> set tickers")
    case False
    then show ?thesis by (simp add: ent)
  next
    case True
    with assms have ic: "in_contract (f k)" by blast
    show ?thesis
    proof (cases "f k")
      case Rejected
      with True show ?thesis by (simp add: ent)
    next
      case (Fulfilled b)
      with ic obtain v where b: "b = Object v"
        by (cases b) (auto simp: in_contract_def)
      from in_contract_entry [of v] ic Fulfilled b obtain d where
        "obj_or (market v) (event v) = Some d" by auto
      with True Fulfilled b show ?thesis by (simp add: ent)
    qed
  qed
  have val: "k \<in> set tickers \<and> f k = Fulfilled (Object v) \<longrightarrow>
            map_of c k = Some (obj_or (market v) (event v))" for k v
    by (simp add: ent)
  have iso: "\<exists>c'. marketInfoCache (f(j := Rejected)) tickers = Inr c'
            \<and> (\<forall>k. k \<noteq> j \<longrightarrow> map_of c' k = map_of c k)" for j
  proof -
    have "\<forall>k \<in> set tickers. (f(j := Rejected)) k \<noteq> Fulfilled Null"
      using nn by simp
    from marketInfoCache_ok [OF this] obtain c' where
      c': "marketInfoCache (f(j := Rejected)) tickers = Inr c'"
      and ent': "\<And>k. map_of c' k =
           (if k \<in> set tickers
            then (case (f(j := Rejected)) k of
                    Rejected \<Rightarrow> None
                  | Fulfilled b \<Rightarrow>
                      (case b of Null \<Rightarrow> None
                       | Object v \<Rightarrow> Some (obj_or (market v) (event v))))
            else None)"
      by blast
    have "k \<noteq> j \<longrightarrow> map_of c' k = map_of c k" for k
      by (simp add: ent ent')
    with c' show ?thesis by blast
  qed
  from c keys dist len def has val iso show ?thesis by blast
qed

text \<open>
  X resolves as a market and Z as an event, both within the declared types. The table has
  both records, and when the lookup of Z fails instead, the entry of X is the same.
\<close>

theorem resolver_table_witness:
  "in_contract (x_and_z (Some ''X'')) \<and> in_contract (x_and_z (Some ''Z''))
   \<and> marketInfoCache x_and_z [Some ''X'', Some ''Z'']
       = Inr [(Some ''X'', Some marketA2), (Some ''Z'', Some marketA2)]
   \<and> marketInfoCache (x_and_z (Some ''Z'' := Rejected)) [Some ''X'', Some ''Z'']
       = Inr [(Some ''X'', Some marketA2)]
   \<and> (\<exists>c. marketInfoCache x_and_z [Some ''X'', Some ''Z''] = Inr c
          \<and> length c \<le> length [Some ''X'', Some ''Z'']
          \<and> Map_has c (Some ''X'')
          \<and> map_of c (Some ''X'') = Some (Some marketA2)
          \<and> (\<exists>c'. marketInfoCache (x_and_z (Some ''Z'' := Rejected)) [Some ''X'', Some ''Z'']
                  = Inr c'
                \<and> map_of c' (Some ''X'') = map_of c (Some ''X'')))"
proof -
  have 1: "in_contract (x_and_z (Some ''X''))"
    by (simp add: x_and_z_def in_contract_def)
  have 2: "in_contract (x_and_z (Some ''Z''))"
    by (simp add: x_and_z_def in_contract_def)
  have h: "\<forall>k \<in> set [Some ''X'', Some ''Z'']. in_contract (x_and_z k)"
    using 1 2 by simp
  have 3: "marketInfoCache x_and_z [Some ''X'', Some ''Z'']
       = Inr [(Some ''X'', Some marketA2), (Some ''Z'', Some marketA2)]"
    by (simp add: marketInfoCache_def build_cache_def marketInfoResults_def cache_step_def
          x_and_z_def obj_or_def)
  have 4: "marketInfoCache (x_and_z (Some ''Z'' := Rejected)) [Some ''X'', Some ''Z'']
       = Inr [(Some ''X'', Some marketA2)]"
    by (simp add: marketInfoCache_def build_cache_def marketInfoResults_def cache_step_def
          x_and_z_def obj_or_def)
  from resolver_table [OF h] obtain c where
    c: "marketInfoCache x_and_z [Some ''X'', Some ''Z''] = Inr c"
    and len: "length c \<le> length [Some ''X'', Some ''Z'']"
    and has: "\<forall>k. Map_has c k \<longleftrightarrow> k \<in> set [Some ''X'', Some ''Z''] \<and> x_and_z k \<noteq> Rejected"
    and iso: "\<forall>j. \<exists>c'. marketInfoCache (x_and_z (j := Rejected)) [Some ''X'', Some ''Z'']
                 = Inr c' \<and> (\<forall>k. k \<noteq> j \<longrightarrow> map_of c' k = map_of c k)"
    by blast
  from has have hx: "Map_has c (Some ''X'')"
    by (simp add: x_and_z_def)
  from c 3 have "c = [(Some ''X'', Some marketA2), (Some ''Z'', Some marketA2)]"
    by simp
  then have mx: "map_of c (Some ''X'') = Some (Some marketA2)"
    by simp
  from iso obtain c' where
    "marketInfoCache (x_and_z (Some ''Z'' := Rejected)) [Some ''X'', Some ''Z''] = Inr c'"
    "\<forall>k. k \<noteq> Some ''Z'' \<longrightarrow> map_of c' k = map_of c k"
    by blast
  then have "\<exists>c'. marketInfoCache (x_and_z (Some ''Z'' := Rejected)) [Some ''X'', Some ''Z'']
                  = Inr c'
                \<and> map_of c' (Some ''X'') = map_of c (Some ''X'')"
    by auto
  with 1 2 3 4 c len hx mx show ?thesis by blast
qed

subsection \<open>Bodies outside the declared types\<close>

text \<open>
  A fulfilled body with neither a \<^verbatim>\<open>market\<close> nor an \<^verbatim>\<open>event\<close> is stored as \<^verbatim>\<open>undefined\<close>, and
  the loop of the threshold then throws a TypeError; a body \<^verbatim>\<open>null\<close> throws it in the
  \<^verbatim>\<open>forEach\<close> already.
\<close>

lemma bare_body_stored_undefined:
  "marketInfoCache bare_markets (marketTickers [tradeA t1]) = Inr [(Some ''X'', None)]
   \<and> queryFn (one_page [tradeA t1]) bare_markets now = Inl TypeError"
proof -
  have c: "marketInfoCache bare_markets (marketTickers [tradeA t1]) = Inr [(Some ''X'', None)]"
    by (simp add: scenario_defs resolver_defs bare_markets_def)
  have "queryFn (one_page [tradeA t1]) bare_markets now = Inl TypeError"
    unfolding queryFn_def paginate_one_page fst_conv Let_def c
    by (simp add: whaleThreshold_def)
  with c show ?thesis by simp
qed

lemma null_body_throws:
  "marketInfoCache null_markets (marketTickers [tradeA t1]) = Inl TypeError
   \<and> queryFn (one_page [tradeA t1]) null_markets now = Inl TypeError"
proof -
  have c: "marketInfoCache null_markets (marketTickers [tradeA t1]) = Inl TypeError"
    by (simp add: scenario_defs resolver_defs null_markets_def)
  have "queryFn (one_page [tradeA t1]) null_markets now = Inl TypeError"
    unfolding queryFn_def paginate_one_page fst_conv Let_def c
    by simp
  with c show ?thesis by simp
qed

section \<open>Invariants of the rollup\<close>

lemma align_unresolved: "\<not> Map_has c (jsobj.ticker t) \<Longrightarrow> align c t = t"
  by (simp add: align_def Map_get_def Map_has_iff spread_def)

lemma fold_step_unresolved: "\<not> Map_has c (jsobj.ticker a) \<Longrightarrow> fold_step c thr mm a = mm"
  by (simp add: fold_step_def)

text \<open>The entry that a trade leaves for its market.\<close>

lemma map_of_fold_step:
  "map_of (fold_step c thr mm a) k =
     (if Map_has c (jsobj.ticker a) \<and> k = jsobj.ticker a
      then Some (case map_of mm k of
                   None \<Rightarrow> new_market (isWhaleTrade thr a) a
                 | Some e \<Rightarrow> update_market (isWhaleTrade thr a) a e)
      else map_of mm k)"
  by (auto simp: fold_step_def Let_def update_conv' Map_has_iff split: option.splits)

lemma distinct_fold_step:
  "distinct (map fst mm) \<Longrightarrow> distinct (map fst (fold_step c thr mm a))"
  by (auto simp: fold_step_def Let_def distinct_update split: option.splits)

lemma rollup_snoc: "rollup c thr (as @ [a]) = fold_step c thr (rollup c thr as) a"
  by (simp add: rollup_def)

lemma distinct_rollup: "distinct (map fst (rollup c thr as))"
  by (induction as rule: rev_induct) (simp_all add: rollup_snoc distinct_fold_step, simp add: rollup_def)

lemma Map_has_rollup:
  "Map_has (rollup c thr as) k \<longleftrightarrow> Map_has c k \<and> k \<in> jsobj.ticker ` set as"
proof (induction as rule: rev_induct)
  case Nil
  then show ?case by (simp add: rollup_def Map_has_def)
next
  case (snoc a as)
  then show ?case
    unfolding rollup_snoc Map_has_iff [of "fold_step c thr (rollup c thr as) a"]
      Map_has_iff [of "rollup c thr as"] map_of_fold_step
    by auto
qed

lemma high_volume_new_market [simp]: "Market.high_volume (new_market w a) = w"
  by (simp add: new_market_def)

lemma high_volume_update_market [simp]:
  "Market.high_volume (update_market w a e) = (w \<or> Market.high_volume e)"
  by (simp add: update_market_def Let_def)

lemma volume_new_market [simp]: "Market.volume (new_market w a) = jsobj.volume a"
  by (simp add: new_market_def)

lemma volume_update_market [simp]: "Market.volume (update_market w a e) = jsobj.volume a"
  by (simp add: update_market_def Let_def)

lemma ticker_symbol_new_market [simp]: "ticker_symbol (new_market w a) = jsobj.ticker a"
  by (simp add: new_market_def)

lemma ticker_symbol_update_market [simp]:
  "ticker_symbol (update_market w a e) = ticker_symbol e"
  by (simp add: update_market_def Let_def)

lemma rollup_entry:
  "map_of (rollup c thr as) k = Some m \<Longrightarrow>
     ticker_symbol m = k
     \<and> (Market.high_volume m \<longleftrightarrow> (\<exists>a \<in> set as. jsobj.ticker a = k \<and> isWhaleTrade thr a))
     \<and> Market.volume m = jsobj.volume (last (filter (\<lambda>a. jsobj.ticker a = k) as))"
proof (induction as arbitrary: m rule: rev_induct)
  case Nil
  then show ?case by (simp add: rollup_def)
next
  case (snoc a as)
  show ?case
  proof (cases "Map_has c (jsobj.ticker a) \<and> k = jsobj.ticker a")
    case False
    with snoc.prems have old: "map_of (rollup c thr as) k = Some m"
      by (simp add: rollup_snoc map_of_fold_step)
    then have "Map_has (rollup c thr as) k" by (simp add: Map_has_iff)
    then have "Map_has c k" by (simp add: Map_has_rollup)
    with False have "jsobj.ticker a \<noteq> k" by auto
    with snoc.IH [OF old] show ?thesis by auto
  next
    case True
    show ?thesis
    proof (cases "map_of (rollup c thr as) k")
      case None
      then have "\<not> Map_has (rollup c thr as) k" by (simp add: Map_has_iff)
      with True have "k \<notin> jsobj.ticker ` set as"
        by (simp add: Map_has_rollup)
      then have no: "\<forall>a' \<in> set as. jsobj.ticker a' \<noteq> k"
        by blast
      from snoc.prems True None have "m = new_market (isWhaleTrade thr a) a"
        by (simp add: rollup_snoc map_of_fold_step)
      with True no show ?thesis by auto
    next
      case (Some e)
      from snoc.prems True Some have "m = update_market (isWhaleTrade thr a) a e"
        by (simp add: rollup_snoc map_of_fold_step)
      with True snoc.IH [OF Some] show ?thesis by auto
    qed
  qed
qed

lemma rollup_skips:
  "foldl (fold_step c thr) mm (map (align c) ts)
     = foldl (fold_step c thr) mm (map (align c) (filter (\<lambda>t. Map_has c (jsobj.ticker t)) ts))"
  by (induction ts arbitrary: mm) (simp_all add: align_unresolved fold_step_unresolved)

lemma rollup_skips_ticker:
  "\<not> Map_has c z \<Longrightarrow>
   foldl (fold_step c thr) mm (map (align c) ts)
     = foldl (fold_step c thr) mm (map (align c) (filter (\<lambda>t. jsobj.ticker t \<noteq> z) ts))"
  by (induction ts arbitrary: mm) (auto simp add: align_unresolved fold_step_unresolved)

lemma queryFn_markets:
  "queryFn tf mf now = Inr r \<Longrightarrow> m \<in> set (markets r) \<Longrightarrow>
     \<exists>c thr. cache_of tf mf = Inr c
        \<and> m \<in> set (map snd (rollup c thr (alignedMarkets c (fst (paginate tf)))))"
proof -
  assume q: "queryFn tf mf now = Inr r" and m: "m \<in> set (markets r)"
  from q obtain c thr where "cache_of tf mf = Inr c"
    "markets r = filter crypto (filter titled
       (map snd (rollup c thr (alignedMarkets c (fst (paginate tf))))))"
    by (auto simp: queryFn_def Let_def cache_of_def split: sum.splits)
  with m show ?thesis by auto
qed

lemma rollup_member:
  assumes "m \<in> set (map snd (rollup c thr as))"
  shows "Map_has c (ticker_symbol m)"
proof -
  from assms obtain k where km: "(k, m) \<in> set (rollup c thr as)" by auto
  with distinct_rollup [of c thr as] have e: "map_of (rollup c thr as) k = Some m" by simp
  then have "Map_has (rollup c thr as) k" by (simp add: Map_has_iff)
  then have "Map_has c k" by (simp add: Map_has_rollup)
  with rollup_entry [OF e] show ?thesis by simp
qed

text \<open>
  Claim C3. Let \<open>z\<close> be a ticker that is not a key of the resolver's table. A trade on \<open>z\<close>
  leaves every rollup map as it is: it creates no entry and updates none. The rollup of a
  trade sequence is the rollup of the sequence without its trades on \<open>z\<close>, and it has no
  entry for \<open>z\<close>. When the table is the one of the refresh cycle, no market of the
  response has the ticker \<open>z\<close>. The notional value of the trades plays no part.
\<close>

theorem unresolved_excluded:
  assumes "\<not> Map_has c z"
  shows "(jsobj.ticker t = z \<longrightarrow> fold_step c thr mm (align c t) = mm)
   \<and> rollup c thr (alignedMarkets c ts)
       = rollup c thr (alignedMarkets c (filter (\<lambda>t. jsobj.ticker t \<noteq> z) ts))
   \<and> \<not> Map_has (rollup c thr (alignedMarkets c ts)) z
   \<and> (cache_of tf mf = Inr c \<longrightarrow>
        (case queryFn tf mf now of
           Inl e \<Rightarrow> True
         | Inr r \<Rightarrow> z \<notin> set (map ticker_symbol (markets r))))"
proof -
  have 1: "jsobj.ticker t = z \<Longrightarrow> fold_step c thr mm (align c t) = mm"
    using assms by (simp add: align_unresolved fold_step_unresolved)
  have 2: "rollup c thr (alignedMarkets c ts)
       = rollup c thr (alignedMarkets c (filter (\<lambda>t. jsobj.ticker t \<noteq> z) ts))"
    unfolding rollup_def alignedMarkets_def by (rule rollup_skips_ticker [OF assms])
  have 3: "\<not> Map_has (rollup c thr (alignedMarkets c ts)) z"
    using assms by (simp add: Map_has_rollup)
  have 4: "case queryFn tf mf now of
           Inl e \<Rightarrow> True
         | Inr r \<Rightarrow> z \<notin> set (map ticker_symbol (markets r))" if c: "cache_of tf mf = Inr c"
  proof (cases "queryFn tf mf now")
    case (Inl e)
    then show ?thesis by simp
  next
    case (Inr r)
    have "ticker_symbol m \<noteq> z" if "m \<in> set (markets r)" for m
    proof -
      from queryFn_markets [OF Inr that] obtain c' thr' where
        "cache_of tf mf = Inr c'"
        "m \<in> set (map snd (rollup c' thr' (alignedMarkets c' (fst (paginate tf)))))"
        by blast
      with c have "m \<in> set (map snd (rollup c thr' (alignedMarkets c (fst (paginate tf)))))"
        by simp
      then have "Map_has c (ticker_symbol m)" by (rule rollup_member)
      with assms show ?thesis by auto
    qed
    with Inr show ?thesis by auto
  qed
  from 1 2 3 4 show ?thesis by blast
qed


lemma cache_of_Z_A:
  "cache_of (one_page [tradeZ, tradeA t1]) (markets_of (cacheA ttl)) = Inr (cacheA ttl)"
  by (simp add: cache_of_def paginate_one_page scenario_defs tradeZ_def resolver_defs)

theorem unresolved_excluded_witness:
  "cache_of (one_page [tradeZ, tradeA ''t1''])
       (markets_of (cacheA (Some ''Bitcoin above 100k'')))
     = Inr (cacheA (Some ''Bitcoin above 100k''))
   \<and> \<not> Map_has (cacheA (Some ''Bitcoin above 100k'')) (Some ''Z'')
   \<and> jsobj.ticker tradeZ = Some ''Z''
   \<and> fold_step (cacheA (Some ''Bitcoin above 100k'')) 62.5 []
        (align (cacheA (Some ''Bitcoin above 100k'')) tradeZ) = []
   \<and> \<not> Map_has (rollup (cacheA (Some ''Bitcoin above 100k'')) 62.5
           (alignedMarkets (cacheA (Some ''Bitcoin above 100k'')) [tradeZ, tradeA ''t1'']))
         (Some ''Z'')
   \<and> (case queryFn (one_page [tradeZ, tradeA ''t1''])
              (markets_of (cacheA (Some ''Bitcoin above 100k''))) ''now'' of
         Inl e \<Rightarrow> True
       | Inr r \<Rightarrow> Some ''Z'' \<notin> set (map ticker_symbol (markets r)))"
proof -
  let ?c = "cacheA (Some ''Bitcoin above 100k'')"
  have c: "cache_of (one_page [tradeZ, tradeA ''t1'']) (markets_of ?c) = Inr ?c"
    by (rule cache_of_Z_A)
  have 1: "\<not> Map_has ?c (Some ''Z'')"
    by (simp add: cacheA_def Map_has_def)
  have 2: "jsobj.ticker tradeZ = Some ''Z''"
    by (simp add: tradeZ_def)
  from unresolved_excluded [OF 1, of tradeZ "62.5" "[]" "[tradeZ, tradeA ''t1'']"
      "one_page [tradeZ, tradeA ''t1'']" "markets_of ?c" "''now''"] 1 2 c
  show ?thesis by blast
qed

text \<open>
  Claim C4, as the code has it. Let \<open>y\<close> be a key of the resolver's table. When some
  aligned trade of the sequence with the ticker \<open>y\<close> is a whale trade, whatever the other
  trades on \<open>y\<close> are, the rollup map has exactly one entry for \<open>y\<close>, its \<open>high_volume\<close> flag
  is true, and its volume is the \<^verbatim>\<open>volume\<close> field of the last aligned trade on \<open>y\<close>, that is
  the volume of the market record when this has one.
\<close>

theorem whale_flag_or:
  assumes "Map_has c y" and "a \<in> set as" and "jsobj.ticker a = y"
    and "isWhaleTrade thr a"
  shows "\<exists>m. map_of (rollup c thr as) y = Some m
            \<and> distinct (map fst (rollup c thr as))
            \<and> ticker_symbol m = y
            \<and> Market.high_volume m
            \<and> Market.volume m = jsobj.volume (last (filter (\<lambda>a. jsobj.ticker a = y) as))"
proof -
  from assms(1-3) have "Map_has (rollup c thr as) y"
    by (auto simp: Map_has_rollup)
  then obtain m where m: "map_of (rollup c thr as) y = Some m"
    by (auto simp: Map_has_iff)
  from rollup_entry [OF m] assms(2-4) distinct_rollup [of c thr as] m
  show ?thesis by auto
qed

lemmas scenario_C_defs = tradeY1_def tradeY2_def tradeY1b_def marketY_def cacheY_def
  empty_obj_def

theorem whale_flag_or_witness:
  "Map_has cacheY (Some ''Y'')
   \<and> align cacheY tradeY1 \<in> set (alignedMarkets cacheY [tradeY1, tradeY2])
   \<and> jsobj.ticker (align cacheY tradeY1) = Some ''Y''
   \<and> isWhaleTrade 62.5 (align cacheY tradeY1)
   \<and> \<not> isWhaleTrade 62.5 (align cacheY tradeY2)
   \<and> (\<exists>m. map_of (rollup cacheY 62.5 (alignedMarkets cacheY [tradeY1, tradeY2])) (Some ''Y'')
              = Some m
            \<and> Market.high_volume m
            \<and> Market.volume m = jsobj.volume (align cacheY tradeY2))"
proof -
  have 1: "Map_has cacheY (Some ''Y'')" by (simp add: cacheY_def Map_has_def)
  have 2: "align cacheY tradeY1 \<in> set (alignedMarkets cacheY [tradeY1, tradeY2])"
    by (simp add: alignedMarkets_def)
  have 3: "jsobj.ticker (align cacheY tradeY1) = Some ''Y''"
    by (simp add: scenario_C_defs rollup_defs)
  have 4: "isWhaleTrade 62.5 (align cacheY tradeY1)"
    by (simp add: scenario_C_defs rollup_defs)
  have 5: "\<not> isWhaleTrade 62.5 (align cacheY tradeY2)"
    by (simp add: scenario_C_defs rollup_defs)
  have 6: "jsobj.ticker (align cacheY tradeY2) = Some ''Y''"
    by (simp add: scenario_C_defs rollup_defs)
  have 7: "last (filter (\<lambda>a. jsobj.ticker a = Some ''Y'')
              (alignedMarkets cacheY [tradeY1, tradeY2])) = align cacheY tradeY2"
    using 3 6 by (simp add: alignedMarkets_def)
  from whale_flag_or [OF 1 2 3 4] 1 2 3 4 5 7 show ?thesis by auto
qed

text \<open>
  The claim as the specification states it (a cumulative volume that reflects the
  quantities of both trades) fails: in scenario C the volume of the rollup is 5000, the
  volume of the market record, and it stays 5000 when the first trade has 20 contracts in
  place of 10.
\<close>

theorem cumulative_volume_counterexample:
  "whaleThreshold cacheY = Inr 62.5
   \<and> isWhaleTrade 62.5 (align cacheY tradeY1)
   \<and> \<not> isWhaleTrade 62.5 (align cacheY tradeY2)
   \<and> map (\<lambda>p. (fst p, Market.high_volume (snd p), Market.volume (snd p)))
        (rollup cacheY 62.5 (alignedMarkets cacheY [tradeY1, tradeY2]))
      = [(Some ''Y'', True, Some 5000)]
   \<and> map (\<lambda>p. (fst p, Market.high_volume (snd p), Market.volume (snd p)))
        (rollup cacheY 62.5 (alignedMarkets cacheY [tradeY1b, tradeY2]))
      = [(Some ''Y'', True, Some 5000)]
   \<and> Some (5000 :: rat) \<noteq> Some (10 + 1)"
proof -
  have 1: "whaleThreshold cacheY = Inr 62.5"
    by (simp add: scenario_C_defs threshold_defs)
  have 2: "isWhaleTrade 62.5 (align cacheY tradeY1)"
    by (simp add: scenario_C_defs rollup_defs)
  have 3: "\<not> isWhaleTrade 62.5 (align cacheY tradeY2)"
    by (simp add: scenario_C_defs rollup_defs)
  have 4: "map (\<lambda>p. (fst p, Market.high_volume (snd p), Market.volume (snd p)))
        (rollup cacheY 62.5 (alignedMarkets cacheY [tradeY1, tradeY2]))
      = [(Some ''Y'', True, Some 5000)]"
    by (simp add: scenario_C_defs rollup_defs Let_def)
  have 5: "map (\<lambda>p. (fst p, Market.high_volume (snd p), Market.volume (snd p)))
        (rollup cacheY 62.5 (alignedMarkets cacheY [tradeY1b, tradeY2]))
      = [(Some ''Y'', True, Some 5000)]"
    by (simp add: scenario_C_defs rollup_defs Let_def)
  from 1 2 3 4 5 show ?thesis by simp
qed

section \<open>The event fallback of the lookup route\<close>

lemma fetcher_of_internal_error [simp]: "fetcher_of internal_error = Rejected"
  by (simp add: fetcher_of_def internal_error_def)

lemma fetcher_of_failed_to_fetch [simp]: "\<not> ok r \<Longrightarrow> fetcher_of (failed_to_fetch tk r) = Rejected"
  by (auto simp: fetcher_of_def failed_to_fetch_def ok_def)

lemma fetcher_of_pass_through:
  "fetcher_of (pass_through r) = (case json r of None \<Rightarrow> Rejected | Some d \<Rightarrow> Fulfilled d)"
  by (simp add: fetcher_of_def pass_through_def internal_error_def split: option.splits)

lemma not_found_not_ok: "code r = 404 \<Longrightarrow> \<not> ok r"
  by (simp add: ok_def)

text \<open>
  Claim C8, as the code has it. Let the upstream answer the market lookup of a ticker with
  the status 404. The route with the fallback then sends exactly one more request, the
  event lookup of the same ticker, and the client's lookup fails exactly when this second
  request fails too (no answer, a status outside 200 to 299, or a body that is no JSON);
  otherwise it yields the body of the event answer. The current route, with the allow-list,
  sends no event lookup, and the client's lookup fails.
\<close>

theorem event_fallback:
  assumes "tk \<noteq> []" and "upstream (MarketsReq tk) = Response r" and "code r = 404"
  shows "snd (GET_fallback upstream tk) = [MarketsReq tk, EventsReq tk]
     \<and> fetcher_of (fst (GET_fallback upstream tk))
         = (case upstream (EventsReq tk) of
              NetworkError \<Rightarrow> Rejected
            | Response r2 \<Rightarrow>
                (if ok r2 then (case json r2 of None \<Rightarrow> Rejected | Some d \<Rightarrow> Fulfilled d)
                 else Rejected))
     \<and> snd (GET_scoped upstream tk) = (if isAllowed tk then [MarketsReq tk] else [])
     \<and> fetcher_of (fst (GET_scoped upstream tk)) = Rejected"
proof -
  have nok: "\<not> ok r" using assms(3) by (rule not_found_not_ok)
  have 1: "snd (GET_fallback upstream tk) = [MarketsReq tk, EventsReq tk]"
    using assms nok by (simp add: GET_fallback_def split: fetch_result.splits)
  have 2: "fetcher_of (fst (GET_fallback upstream tk))
         = (case upstream (EventsReq tk) of
              NetworkError \<Rightarrow> Rejected
            | Response r2 \<Rightarrow>
                (if ok r2 then (case json r2 of None \<Rightarrow> Rejected | Some d \<Rightarrow> Fulfilled d)
                 else Rejected))"
    using assms nok
    by (simp add: GET_fallback_def fetcher_of_pass_through split: fetch_result.splits)
  have 3: "snd (GET_scoped upstream tk) = (if isAllowed tk then [MarketsReq tk] else [])"
    using assms nok by (simp add: GET_scoped_def)
  have 4: "fetcher_of (fst (GET_scoped upstream tk)) = Rejected"
    using assms by (simp add: GET_scoped_def fetcher_of_def failed_to_fetch_def ok_def)
  from 1 2 3 4 show ?thesis by blast
qed

lemma isAllowed_KXBTC: "isAllowed ''KXBTC-1''"
  by (simp add: isAllowed_def ALLOWED_TICKER_PREFIXES_def startsWith_def)

theorem event_fallback_witness:
  "''KXBTC-1'' \<noteq> []
   \<and> event_only (MarketsReq ''KXBTC-1'')
       = Response \<lparr> code = 404, json = None, body_text = ''not found'' \<rparr>
   \<and> code \<lparr> code = 404, json = None, body_text = ''not found'' \<rparr> = 404
   \<and> snd (GET_fallback event_only ''KXBTC-1'') = [MarketsReq ''KXBTC-1'', EventsReq ''KXBTC-1'']
   \<and> fetcher_of (fst (GET_fallback event_only ''KXBTC-1''))
       = Fulfilled (Object \<lparr> market = None, event = Some marketA2 \<rparr>)
   \<and> snd (GET_scoped event_only ''KXBTC-1'') = [MarketsReq ''KXBTC-1'']
   \<and> fetcher_of (fst (GET_scoped event_only ''KXBTC-1'')) = Rejected"
proof -
  have 1: "''KXBTC-1'' \<noteq> []" by simp
  have 2: "event_only (MarketsReq ''KXBTC-1'')
       = Response \<lparr> code = 404, json = None, body_text = ''not found'' \<rparr>"
    by (simp add: event_only_def)
  have 3: "code \<lparr> code = 404, json = None, body_text = ''not found'' \<rparr> = 404" by simp
  from event_fallback [of "''KXBTC-1''" event_only
      "\<lparr> code = 404, json = None, body_text = ''not found'' \<rparr>", OF 1 2 3]
    2 isAllowed_KXBTC show ?thesis
    by (simp add: event_only_def ok_def)
qed

text \<open>
  The claim as the specification states it (every not-found market lookup is retried
  against the events) fails on the current route: for an allowed ticker that the upstream
  knows as an event only, the route sends the market lookup alone and answers 404, so the
  ticker is unresolved although its event lookup would succeed.
\<close>

theorem scoped_route_counterexample:
  "event_only (MarketsReq ''KXBTC-1'')
       = Response \<lparr> code = 404, json = None, body_text = ''not found'' \<rparr>
   \<and> GET_scoped event_only ''KXBTC-1''
       = (Message 404 ''Failed to fetch data for ticker KXBTC-1'' (Some ''not found''),
          [MarketsReq ''KXBTC-1''])
   \<and> EventsReq ''KXBTC-1'' \<notin> set (snd (GET_scoped event_only ''KXBTC-1''))
   \<and> fetcher_of (fst (GET_scoped event_only ''KXBTC-1'')) = Rejected
   \<and> (case event_only (EventsReq ''KXBTC-1'') of
         NetworkError \<Rightarrow> False
       | Response r2 \<Rightarrow> ok r2 \<and> json r2 \<noteq> None)"
  using isAllowed_KXBTC
  by (simp add: GET_scoped_def event_only_def ok_def failed_to_fetch_def fetcher_of_def)

end
